theory Spec2Isabelle
  imports Complex_Main
begin

section \<open>JavaScript values\<close>

text \<open>
  The program of \<^verbatim>\<open>xgboost.js\<close> computes with JavaScript numbers. A number is read here
  as a real: finite, with exact arithmetic. Rounding, overflow and the infinities of the
  IEEE doubles are left out: a sum that overflows in the program is a finite number here,
  and a statement that gives the value of a computation gives it in exact arithmetic. Two
  other values
  that the program can meet are kept apart from the numbers: \<open>NaN\<close>, the result of
  arithmetic on a missing operand, and \<open>Undefined\<close>, the result of reading an array beyond
  its length or a field that is not there. No division of the program has a zero
  denominator: each is a count plus \<open>1e-10\<close>, the constant \<open>2\<close> or \<open>1 + exp t\<close>.
  The rows of \<open>X\<close>, the labels \<open>y\<close> and a feature vector are lists of numbers; a
  hyperparameter that the caller supplies is a number or \<open>NaN\<close>.
\<close>

datatype jsval = Num real | NaN | Undefined

datatype error = TypeError | InvalidInput

fun js_add :: "jsval \<Rightarrow> jsval \<Rightarrow> jsval" where
  "js_add (Num a) (Num b) = Num (a + b)"
| "js_add _ _ = NaN"

fun js_sub :: "jsval \<Rightarrow> jsval \<Rightarrow> jsval" where
  "js_sub (Num a) (Num b) = Num (a - b)"
| "js_sub _ _ = NaN"

fun js_mul :: "jsval \<Rightarrow> jsval \<Rightarrow> jsval" where
  "js_mul (Num a) (Num b) = Num (a * b)"
| "js_mul _ _ = NaN"

fun js_div :: "jsval \<Rightarrow> jsval \<Rightarrow> jsval" where
  "js_div (Num a) (Num b) = (if b = 0 then NaN else Num (a / b))"
| "js_div _ _ = NaN"

fun js_neg :: "jsval \<Rightarrow> jsval" where
  "js_neg (Num a) = Num (- a)"
| "js_neg _ = NaN"

fun js_abs :: "jsval \<Rightarrow> jsval" where
  "js_abs (Num a) = Num \<bar>a\<bar>"
| "js_abs _ = NaN"

fun js_exp :: "jsval \<Rightarrow> jsval" where
  "js_exp (Num a) = Num (exp a)"
| "js_exp _ = NaN"

text \<open>Comparisons with \<open>NaN\<close> or \<open>undefined\<close> on either side are false.\<close>

fun js_lt :: "jsval \<Rightarrow> jsval \<Rightarrow> bool" where
  "js_lt (Num a) (Num b) = (a < b)"
| "js_lt _ _ = False"

fun js_le :: "jsval \<Rightarrow> jsval \<Rightarrow> bool" where
  "js_le (Num a) (Num b) = (a \<le> b)"
| "js_le _ _ = False"

fun js_gt :: "jsval \<Rightarrow> jsval \<Rightarrow> bool" where
  "js_gt (Num a) (Num b) = (a > b)"
| "js_gt _ _ = False"


text \<open>Strict equality \<open>===\<close>: \<open>undefined === undefined\<close> holds, \<open>NaN === NaN\<close> does not.\<close>

fun js_strict_eq :: "jsval \<Rightarrow> jsval \<Rightarrow> bool" where
  "js_strict_eq (Num a) (Num b) = (a = b)"
| "js_strict_eq Undefined Undefined = True"
| "js_strict_eq _ _ = False"

text \<open>Reading an array: an index beyond the length gives \<open>undefined\<close>.\<close>

definition js_nth :: "jsval list \<Rightarrow> nat \<Rightarrow> jsval" where
  "js_nth xs i = (if i < length xs then xs ! i else Undefined)"

definition js_elem :: "real list \<Rightarrow> nat \<Rightarrow> jsval" where
  "js_elem xs i = (if i < length xs then Num (xs ! i) else Undefined)"

definition js_row :: "real list list \<Rightarrow> nat \<Rightarrow> real list option" where
  "js_row X i = (if i < length X then Some (X ! i) else None)"

text \<open>Writing an array: an index beyond the length extends the array, leaving holes.\<close>

definition js_set :: "jsval list \<Rightarrow> nat \<Rightarrow> jsval \<Rightarrow> jsval list" where
  "js_set xs i v =
     (if i < length xs then xs[i := v]
      else xs @ replicate (i - length xs) Undefined @ [v])"

text \<open>
  \<open>Array.prototype.sort\<close> with a comparison function: the sort is stable, and an element
  moves behind another only when the comparison is positive (a \<open>NaN\<close> comparison counts
  as zero). Where the comparison is not consistent (rows that lack the feature), the
  language leaves the order to the implementation; the model sorts by insertion there
  too, and the result is a permutation in every case.
\<close>

fun insert_by :: "('a \<Rightarrow> 'a \<Rightarrow> jsval) \<Rightarrow> 'a \<Rightarrow> 'a list \<Rightarrow> 'a list" where
  "insert_by c x [] = [x]"
| "insert_by c x (y # ys) =
     (if js_gt (c x y) (Num 0) then y # insert_by c x ys else x # y # ys)"

definition sort_by :: "('a \<Rightarrow> 'a \<Rightarrow> jsval) \<Rightarrow> 'a list \<Rightarrow> 'a list" where
  "sort_by c xs = foldr (insert_by c) xs []"

section \<open>The model: class Node, class XGBoost\<close>

text \<open>
  A \<open>Node\<close> with \<open>isLeaf\<close> set carries \<open>value\<close>; the others carry \<open>featureIndex\<close>,
  \<open>threshold\<close>, \<open>left\<close> and \<open>right\<close>.
\<close>

datatype node = Leaf jsval | Internal nat jsval node node

text \<open>
  The constructor's argument. A field is a number, \<open>NaN\<close>, or \<open>Undefined\<close> when the
  parameter record does not have it.
\<close>

record params =
  p_learningRate :: jsval
  p_maxDepth :: jsval
  p_minChildWeight :: jsval
  p_numRounds :: jsval

record xgboost =
  learningRate :: real
  maxDepth :: real
  minChildWeight :: real
  numRounds :: real
  trees :: "node list"

text \<open>
  \<open>v || d\<close> with a default \<open>d\<close> that is a number other than zero: a missing field, the
  number zero and \<open>NaN\<close> are falsy and give \<open>d\<close>; every other number is truthy and is
  the result itself. The result is a number in every case.
\<close>

fun js_or :: "jsval \<Rightarrow> real \<Rightarrow> real" where
  "js_or (Num x) d = (if x = 0 then d else x)"
| "js_or NaN d = d"
| "js_or Undefined d = d"

definition XGBoost :: "params \<Rightarrow> xgboost" where
  "XGBoost ps =
     \<lparr> learningRate = js_or (p_learningRate ps) (3 / 10),
       maxDepth = js_or (p_maxDepth ps) 4,
       minChildWeight = js_or (p_minChildWeight ps) 1,
       numRounds = js_or (p_numRounds ps) 100,
       trees = [] \<rparr>"

subsection \<open>The split search of \<open>_buildTree\<close>\<close>

record split =
  featureIndex :: nat
  threshold :: jsval
  leftIndices :: "nat list"
  rightIndices :: "nat list"

text \<open>The local variables of the scan of one feature, and the best split so far.\<close>

record scan =
  leftSum :: jsval
  leftCount :: int
  rightSum :: jsval
  rightCount :: int
  bestGain :: jsval
  bestSplit :: "split option"

abbreviation eps :: real where
  "eps \<equiv> 1 / 10 ^ 10"

text \<open>
  \<open>X[a][featureIdx]\<close>. The scan reads the rows at the indices of \<open>sortedIndices\<close>, which
  are below \<open>X.length\<close> (\<open>set_sorted_indices\<close>); a row may lack the feature.
\<close>

definition feature :: "real list list \<Rightarrow> nat \<Rightarrow> nat \<Rightarrow> jsval" where
  "feature X a f = js_elem (X ! a) f"

definition sorted_indices :: "real list list \<Rightarrow> nat \<Rightarrow> nat list" where
  "sorted_indices X featureIdx =
     sort_by (\<lambda>a b. js_sub (feature X a featureIdx) (feature X b featureIdx)) [0..<length X]"

definition gain_of :: "jsval \<Rightarrow> int \<Rightarrow> jsval \<Rightarrow> int \<Rightarrow> jsval \<Rightarrow> nat \<Rightarrow> jsval" where
  "gain_of lS lC rS rC sumGrad count =
     js_sub
       (js_add (js_div (js_mul lS lS) (Num (real_of_int lC + eps)))
               (js_div (js_mul rS rS) (Num (real_of_int rC + eps))))
       (js_div (js_mul sumGrad sumGrad) (Num (real count + eps)))"

text \<open>One turn of the inner loop, lines 71 to 95.\<close>

definition scan_step ::
  "real list list \<Rightarrow> jsval list \<Rightarrow> jsval \<Rightarrow> nat \<Rightarrow> nat \<Rightarrow> nat list \<Rightarrow> nat \<Rightarrow> scan \<Rightarrow> scan" where
  "scan_step X gradients sumGrad count featureIdx sortedIndices i st =
     (let idx = sortedIndices ! i;
          st1 = st \<lparr> leftSum := js_add (leftSum st) (js_nth gradients idx),
                     rightSum := js_sub (rightSum st) (js_nth gradients idx),
                     leftCount := leftCount st + 1,
                     rightCount := rightCount st - 1 \<rparr>
      in if js_strict_eq (feature X (sortedIndices ! i) featureIdx)
                         (feature X (sortedIndices ! (i + 1)) featureIdx)
         then st1
         else
           (let gain = gain_of (leftSum st1) (leftCount st1) (rightSum st1) (rightCount st1)
                         sumGrad count
            in if js_gt gain (bestGain st1)
               then st1 \<lparr> bestGain := gain,
                          bestSplit := Some
                            \<lparr> featureIndex = featureIdx,
                              threshold = js_div (js_add (feature X (sortedIndices ! i) featureIdx)
                                                   (feature X (sortedIndices ! (i + 1)) featureIdx))
                                                 (Num 2),
                              leftIndices = take (i + 1) sortedIndices,
                              rightIndices = drop (i + 1) sortedIndices \<rparr> \<rparr>
               else st1))"

text \<open>One turn of the outer loop, lines 62 to 96: the scan of one feature.\<close>

definition scan_feature ::
  "real list list \<Rightarrow> jsval list \<Rightarrow> jsval \<Rightarrow> nat \<Rightarrow> nat \<Rightarrow> jsval \<times> split option
     \<Rightarrow> jsval \<times> split option" where
  "scan_feature X gradients sumGrad count featureIdx best =
     (let sortedIndices = sorted_indices X featureIdx;
          st0 = \<lparr> leftSum = Num 0, leftCount = 0, rightSum = sumGrad,
                  rightCount = int count, bestGain = fst best, bestSplit = snd best \<rparr>;
          st = fold (scan_step X gradients sumGrad count featureIdx sortedIndices)
                 [0..<length sortedIndices - 1] st0
      in (bestGain st, bestSplit st))"

text \<open>
  The whole search. \<open>X[0].length\<close> on an empty \<open>X\<close> reads a property of \<open>undefined\<close>: a
  \<open>TypeError\<close>.
\<close>

definition findBestSplit ::
  "real list list \<Rightarrow> jsval list \<Rightarrow> jsval \<Rightarrow> nat \<Rightarrow> error + (jsval \<times> split option)" where
  "findBestSplit X gradients sumGrad count =
     (case X of
        [] \<Rightarrow> Inl TypeError
      | x0 # _ \<Rightarrow>
          Inr (fold (scan_feature X gradients sumGrad count) [0..<length x0] (Num 0, None)))"

definition sum_gradients :: "jsval list \<Rightarrow> jsval" where
  "sum_gradients gradients = foldl js_add (Num 0) gradients"

definition leaf_value :: "jsval list \<Rightarrow> jsval" where
  "leaf_value gradients =
     js_div (sum_gradients gradients) (Num (real (length gradients) + eps))"

definition stopping :: "xgboost \<Rightarrow> jsval list \<Rightarrow> nat \<Rightarrow> bool" where
  "stopping m gradients depth \<longleftrightarrow>
     real depth \<ge> maxDepth m \<or> real (length gradients) < minChildWeight m
     \<or> js_lt (js_abs (sum_gradients gradients)) (Num eps)"

text \<open>
  \<open>split_decision\<close> is the part of \<open>_buildTree\<close> before the recursion (lines 47 to 102):
  an error, the decision for a leaf (\<open>None\<close>) or the split to recurse on.
\<close>

definition split_decision ::
  "xgboost \<Rightarrow> real list list \<Rightarrow> jsval list \<Rightarrow> nat \<Rightarrow> error + split option" where
  "split_decision m X gradients depth =
     (if stopping m gradients depth then Inr None
      else
        (case findBestSplit X gradients (sum_gradients gradients) (length gradients) of
           Inl e \<Rightarrow> Inl e
         | Inr (gain, None) \<Rightarrow> Inr None
         | Inr (gain, Some s) \<Rightarrow> if js_lt gain (Num eps) then Inr None else Inr (Some s)))"

definition leftX :: "real list list \<Rightarrow> split \<Rightarrow> real list list" where
  "leftX X s = map (\<lambda>i. X ! i) (leftIndices s)"

definition leftGrad :: "jsval list \<Rightarrow> split \<Rightarrow> jsval list" where
  "leftGrad gradients s = map (\<lambda>i. js_nth gradients i) (leftIndices s)"

definition rightX :: "real list list \<Rightarrow> split \<Rightarrow> real list list" where
  "rightX X s = map (\<lambda>i. X ! i) (rightIndices s)"

definition rightGrad :: "jsval list \<Rightarrow> split \<Rightarrow> jsval list" where
  "rightGrad gradients s = map (\<lambda>i. js_nth gradients i) (rightIndices s)"

subsection \<open>The split found is a partition\<close>

text \<open>
  The recursion of \<open>_buildTree\<close> is on the rows of the two index lists of the split.
  That both are shorter than \<open>X\<close> is what the definition of the function rests on, so
  these facts come before it.
\<close>

definition valid_split :: "real list list \<Rightarrow> split \<Rightarrow> bool" where
  "valid_split X s \<longleftrightarrow>
     leftIndices s \<noteq> [] \<and> rightIndices s \<noteq> [] \<and>
     distinct (leftIndices s @ rightIndices s) \<and>
     set (leftIndices s @ rightIndices s) = {0..<length X}"

definition split_ok :: "real list list \<Rightarrow> split option \<Rightarrow> bool" where
  "split_ok X so = (case so of None \<Rightarrow> True | Some s \<Rightarrow> valid_split X s)"

lemma set_insert_by: "set (insert_by c x ys) = insert x (set ys)"
  by (induction ys) auto

lemma length_insert_by: "length (insert_by c x ys) = Suc (length ys)"
  by (induction ys) auto

lemma distinct_insert_by: "distinct (insert_by c x ys) = (x \<notin> set ys \<and> distinct ys)"
  by (induction ys) (auto simp: set_insert_by)

lemma set_sort_by: "set (sort_by c xs) = set xs"
  unfolding sort_by_def by (induction xs) (auto simp: set_insert_by)

lemma length_sort_by: "length (sort_by c xs) = length xs"
  unfolding sort_by_def by (induction xs) (auto simp: length_insert_by)

lemma distinct_sort_by: "distinct (sort_by c xs) = distinct xs"
  unfolding sort_by_def by (induction xs) (auto simp: distinct_insert_by set_sort_by[unfolded sort_by_def])

lemma set_sorted_indices: "set (sorted_indices X f) = {0..<length X}"
  by (simp add: sorted_indices_def set_sort_by)

lemma length_sorted_indices: "length (sorted_indices X f) = length X"
  by (simp add: sorted_indices_def length_sort_by)

lemma distinct_sorted_indices: "distinct (sorted_indices X f)"
  by (simp add: sorted_indices_def distinct_sort_by)

lemma scan_step_split_ok:
  assumes "split_ok X (bestSplit st)" "Suc i < length X"
  shows "split_ok X (bestSplit (scan_step X g sg c f (sorted_indices X f) i st))"
proof -
  let ?si = "sorted_indices X f"
  have len: "length ?si = length X" by (rule length_sorted_indices)
  have "take (i + 1) ?si \<noteq> []" "drop (i + 1) ?si \<noteq> []"
    using assms(2) len by auto
  moreover have "distinct (take (i + 1) ?si @ drop (i + 1) ?si)"
    "set (take (i + 1) ?si @ drop (i + 1) ?si) = {0..<length X}"
    by (simp_all only: append_take_drop_id distinct_sorted_indices set_sorted_indices)
  ultimately have "valid_split X \<lparr> featureIndex = f, threshold = t,
      leftIndices = take (i + 1) ?si, rightIndices = drop (i + 1) ?si \<rparr>" for t
    by (simp add: valid_split_def)
  with assms(1) show ?thesis
    by (simp add: scan_step_def Let_def split_ok_def)
qed

lemma fold_scan_split_ok:
  assumes "split_ok X (bestSplit st)" "\<forall>i \<in> set is. Suc i < length X"
  shows "split_ok X (bestSplit (fold (scan_step X g sg c f (sorted_indices X f)) is st))"
  using assms by (induction "is" arbitrary: st) (auto simp: scan_step_split_ok)

lemma scan_feature_split_ok:
  assumes "split_ok X (snd best)"
  shows "split_ok X (snd (scan_feature X g sg c f best))"
  using assms
  by (auto simp: scan_feature_def Let_def length_sorted_indices intro!: fold_scan_split_ok)

lemma fold_scan_feature_split_ok:
  assumes "split_ok X (snd best)"
  shows "split_ok X (snd (fold (scan_feature X g sg c) fs best))"
  using assms by (induction fs arbitrary: best) (auto simp: scan_feature_split_ok)

lemma findBestSplit_valid:
  assumes "findBestSplit X g sg c = Inr (bg, Some s)"
  shows "valid_split X s"
proof -
  from assms obtain x0 xs where X: "X = x0 # xs"
    by (cases X) (auto simp: findBestSplit_def)
  have "split_ok X (snd (fold (scan_feature X g sg c) [0..<length x0] (Num 0, None)))"
    by (rule fold_scan_feature_split_ok) (simp add: split_ok_def)
  with assms X show ?thesis
    by (simp add: findBestSplit_def split_ok_def)
qed

lemma valid_split_shorter:
  assumes "valid_split X s"
  shows "length (leftIndices s) < length X" "length (rightIndices s) < length X"
proof -
  from assms have d: "distinct (leftIndices s @ rightIndices s)"
    and e: "set (leftIndices s @ rightIndices s) = {0..<length X}"
    and l: "leftIndices s \<noteq> []" and r: "rightIndices s \<noteq> []"
    by (auto simp: valid_split_def)
  from d e have "length (leftIndices s @ rightIndices s) = length X"
    by (metis card_atLeastLessThan diff_zero distinct_card)
  with l r show "length (leftIndices s) < length X" "length (rightIndices s) < length X"
    by (cases "leftIndices s"; cases "rightIndices s"; simp)+
qed

lemma findBestSplit_shorter:
  assumes "findBestSplit X g sg c = Inr (bg, Some s)"
  shows "length (leftIndices s) < length X \<and> length (rightIndices s) < length X"
  using valid_split_shorter[OF findBestSplit_valid[OF assms]] by simp

subsection \<open>\<open>_buildTree\<close>\<close>

text \<open>
  The recursion ends because both index lists of a split are shorter than \<open>X\<close>; the
  depth test alone would not end it for every \<open>maxDepth\<close>.
\<close>

function buildTree :: "xgboost \<Rightarrow> real list list \<Rightarrow> jsval list \<Rightarrow> nat \<Rightarrow> error + node" where
  "buildTree m X gradients depth =
     (if stopping m gradients depth then Inr (Leaf (leaf_value gradients))
      else
        (case findBestSplit X gradients (sum_gradients gradients) (length gradients) of
           Inl e \<Rightarrow> Inl e
         | Inr (gain, None) \<Rightarrow> Inr (Leaf (leaf_value gradients))
         | Inr (gain, Some s) \<Rightarrow>
             if js_lt gain (Num eps) then Inr (Leaf (leaf_value gradients))
             else
               (case buildTree m (map (\<lambda>i. X ! i) (leftIndices s))
                       (map (\<lambda>i. js_nth gradients i) (leftIndices s)) (depth + 1) of
                  Inl e \<Rightarrow> Inl e
                | Inr left \<Rightarrow>
                    (case buildTree m (map (\<lambda>i. X ! i) (rightIndices s))
                            (map (\<lambda>i. js_nth gradients i) (rightIndices s)) (depth + 1) of
                       Inl e \<Rightarrow> Inl e
                     | Inr right \<Rightarrow> Inr (Internal (featureIndex s) (threshold s) left right)))))"
  by pat_completeness auto
termination
proof (relation "measure (\<lambda>(m, X, g, d). length X)")
  show "wf (measure (\<lambda>(m, X, g, d). length X))" by simp
qed (auto dest: findBestSplit_shorter)

declare buildTree.simps [simp del]

subsection \<open>Prediction\<close>

text \<open>
  \<open>_predict(x, node)\<close>. In \<open>fit\<close> the argument is \<open>X[idx]\<close>, which is \<open>undefined\<close> (here
  \<open>None\<close>) beyond the length of \<open>X\<close>; reading \<open>x[node.featureIndex]\<close> then throws.
\<close>

fun predict :: "real list option \<Rightarrow> node \<Rightarrow> error + jsval" where
  "predict x (Leaf v) = Inr v"
| "predict x (Internal f t l r) =
     (case x of
        None \<Rightarrow> Inl TypeError
      | Some xs \<Rightarrow> if js_le (js_elem xs f) t then predict x l else predict x r)"

fun add_trees :: "real \<Rightarrow> real list option \<Rightarrow> jsval \<Rightarrow> node list \<Rightarrow> error + jsval" where
  "add_trees lr x pred [] = Inr pred"
| "add_trees lr x pred (tree # ts) =
     (case predict x tree of
        Inl e \<Rightarrow> Inl e
      | Inr u \<Rightarrow> add_trees lr x (js_add pred (js_mul (Num lr) u)) ts)"

definition sigmoid :: "jsval \<Rightarrow> jsval" where
  "sigmoid pred = js_div (Num 1) (js_add (Num 1) (js_exp (js_neg pred)))"

definition predictSingle :: "xgboost \<Rightarrow> real list \<Rightarrow> error + jsval" where
  "predictSingle m x =
     (case add_trees (learningRate m) (Some x) (Num (1 / 2)) (trees m) of
        Inl e \<Rightarrow> Inl e
      | Inr pred \<Rightarrow> Inr (sigmoid pred))"

text \<open>\<open>Array.prototype.map\<close> with a callback that may throw: the first throw ends it.\<close>

fun map_err :: "('a \<Rightarrow> error + 'b) \<Rightarrow> 'a list \<Rightarrow> error + 'b list" where
  "map_err f [] = Inr []"
| "map_err f (x # xs) =
     (case f x of
        Inl e \<Rightarrow> Inl e
      | Inr v \<Rightarrow> (case map_err f xs of Inl e \<Rightarrow> Inl e | Inr vs \<Rightarrow> Inr (v # vs)))"

definition predictBatch :: "xgboost \<Rightarrow> real list list \<Rightarrow> error + jsval list" where
  "predictBatch m X = map_err (predictSingle m) X"

subsection \<open>\<open>fit\<close>\<close>

definition gradients_of :: "real list \<Rightarrow> jsval list \<Rightarrow> jsval list" where
  "gradients_of y predictions =
     map (\<lambda>idx. js_sub (Num (y ! idx)) (js_nth predictions idx)) [0..<length y]"

definition update_predictions ::
  "xgboost \<Rightarrow> real list list \<Rightarrow> node \<Rightarrow> jsval list \<Rightarrow> error + jsval list" where
  "update_predictions m X tree predictions =
     map_err
       (\<lambda>idx. case predict (js_row X idx) tree of
                Inl e \<Rightarrow> Inl e
              | Inr update \<Rightarrow>
                  Inr (js_add (predictions ! idx) (js_mul (Num (learningRate m)) update)))
       [0..<length predictions]"

text \<open>
  The loop of \<open>fit\<close>, by the number of rounds still to run. The result is the error thrown,
  if any, and the object as the call leaves it: a tree pushed before a throw stays.
\<close>

fun fit_loop ::
  "nat \<Rightarrow> xgboost \<Rightarrow> real list list \<Rightarrow> real list \<Rightarrow> jsval list \<Rightarrow> error option \<times> xgboost" where
  "fit_loop 0 m X y predictions = (None, m)"
| "fit_loop (Suc k) m X y predictions =
     (case buildTree m X (gradients_of y predictions) 0 of
        Inl e \<Rightarrow> (Some e, m)
      | Inr tree \<Rightarrow>
          (let m' = m \<lparr> trees := trees m @ [tree] \<rparr>
           in case update_predictions m' X tree predictions of
                Inl e \<Rightarrow> (Some e, m')
              | Inr predictions' \<Rightarrow> fit_loop k m' X y predictions'))"

text \<open>
  \<open>for (let i = 0; i < this.numRounds; i++)\<close> runs once for every natural number below
  \<open>numRounds\<close>.
\<close>

definition rounds :: "xgboost \<Rightarrow> nat" where
  "rounds m = nat \<lceil>numRounds m\<rceil>"

definition fit :: "xgboost \<Rightarrow> real list list \<Rightarrow> real list \<Rightarrow> error option \<times> xgboost" where
  "fit m X y = fit_loop (rounds m) m X y (replicate (length y) (Num (1 / 2)))"

subsection \<open>Feature importance\<close>

fun getNumFeatures :: "node \<Rightarrow> nat" where
  "getNumFeatures (Leaf v) = 0"
| "getNumFeatures (Internal f t l r) =
     max (f + 1) (max (getNumFeatures l) (getNumFeatures r))"

text \<open>
  \<open>importance[node.featureIndex]++\<close> reads the entry, adds one and writes it back; an
  entry that is not there reads as \<open>undefined\<close>, and the sum is \<open>NaN\<close>.
\<close>

fun traverseTreeForImportance :: "node \<Rightarrow> jsval list \<Rightarrow> jsval list" where
  "traverseTreeForImportance (Leaf v) importance = importance"
| "traverseTreeForImportance (Internal f t l r) importance =
     traverseTreeForImportance r
       (traverseTreeForImportance l
          (js_set importance f (js_add (js_nth importance f) (Num 1))))"

definition getFeatureImportance :: "xgboost \<Rightarrow> jsval list" where
  "getFeatureImportance m =
     (case trees m of
        [] \<Rightarrow> []
      | t0 # _ \<Rightarrow>
          fold traverseTreeForImportance (trees m) (replicate (getNumFeatures t0) (Num 0)))"

subsection \<open>Serialization\<close>

record json =
  json_trees :: "node list"
  json_params :: params

definition toJSON :: "xgboost \<Rightarrow> json" where
  "toJSON m =
     \<lparr> json_trees = trees m,
       json_params =
         \<lparr> p_learningRate = Num (learningRate m),
           p_maxDepth = Num (maxDepth m),
           p_minChildWeight = Num (minChildWeight m),
           p_numRounds = Num (numRounds m) \<rparr> \<rparr>"

definition fromJSON :: "json \<Rightarrow> xgboost" where
  "fromJSON j = (XGBoost (json_params j)) \<lparr> trees := json_trees j \<rparr>"

section \<open>Notions of the statements\<close>

text \<open>
  \<open>traverse\<close> is the walk of \<open>_predict\<close> on a feature vector that is there; \<open>raw_score\<close>
  is the sum of \<open>predictSingle\<close> before the sigmoid.
\<close>

fun traverse :: "real list \<Rightarrow> node \<Rightarrow> jsval" where
  "traverse x (Leaf v) = v"
| "traverse x (Internal f t l r) =
     (if js_le (js_elem x f) t then traverse x l else traverse x r)"

definition raw_score :: "real \<Rightarrow> real list \<Rightarrow> node list \<Rightarrow> jsval" where
  "raw_score lr x ts = foldl (\<lambda>pred tree. js_add pred (js_mul (Num lr) (traverse x tree))) (Num (1 / 2)) ts"


fun node_depths :: "nat \<Rightarrow> node \<Rightarrow> nat list" where
  "node_depths d (Leaf v) = [d]"
| "node_depths d (Internal f t l r) = d # node_depths (d + 1) l @ node_depths (d + 1) r"

text \<open>
  The trees of a model that never splits, round by round: each is the leaf of that round's
  gradients, and the predictions move by \<open>learningRate\<close> times its value.
\<close>

fun leaf_rounds :: "nat \<Rightarrow> real \<Rightarrow> real list \<Rightarrow> jsval list \<Rightarrow> node list" where
  "leaf_rounds 0 lr y predictions = []"
| "leaf_rounds (Suc k) lr y predictions =
     (let v = leaf_value (gradients_of y predictions)
      in Leaf v # leaf_rounds k lr y (map (\<lambda>pred. js_add pred (js_mul (Num lr) v)) predictions))"


text \<open>
  Values that are numbers, and models whose hyperparameters are all truthy (not zero).
\<close>

fun is_num :: "jsval \<Rightarrow> bool" where
  "is_num (Num a) = True"
| "is_num _ = False"

definition truthy_hyperparameters :: "xgboost \<Rightarrow> bool" where
  "truthy_hyperparameters m \<longleftrightarrow>
     learningRate m \<noteq> 0 \<and> maxDepth m \<noteq> 0 \<and> minChildWeight m \<noteq> 0 \<and> numRounds m \<noteq> 0"

text \<open>
  The candidate splits in the words of the specification: position \<open>i\<close> of the order of
  feature \<open>featureIdx\<close> is a boundary when the two adjacent feature values differ; its
  gain is computed from the sum of the first \<open>i + 1\<close> gradients in that order and the rest
  of the total.
\<close>

definition candidate_gain :: "real list list \<Rightarrow> jsval list \<Rightarrow> nat \<Rightarrow> nat \<Rightarrow> jsval" where
  "candidate_gain X gradients featureIdx i =
     (let left = map (js_nth gradients) (take (i + 1) (sorted_indices X featureIdx));
          leftSum = foldl js_add (Num 0) left;
          rightSum = foldl js_sub (sum_gradients gradients) left
      in gain_of leftSum (int (i + 1)) rightSum (int (length gradients) - int (i + 1))
           (sum_gradients gradients) (length gradients))"








section \<open>What the operations compute\<close>

subsection \<open>Prediction on a feature vector never throws\<close>

lemma predict_Some: "predict (Some x) t = Inr (traverse x t)"
  by (induction t) auto

lemma add_trees_Some:
  "add_trees lr (Some x) pred ts =
     Inr (foldl (\<lambda>pred tree. js_add pred (js_mul (Num lr) (traverse x tree))) pred ts)"
  by (induction ts arbitrary: pred) (auto simp: predict_Some)

lemma predictSingle_eq: "predictSingle m x = Inr (sigmoid (raw_score (learningRate m) x (trees m)))"
  by (simp add: predictSingle_def add_trees_Some raw_score_def)

lemma map_err_Inr: "(\<And>x. x \<in> set xs \<Longrightarrow> f x = Inr (g x)) \<Longrightarrow> map_err f xs = Inr (map g xs)"
  by (induction xs) auto

lemma predictBatch_eq:
  "predictBatch m X = Inr (map (\<lambda>x. sigmoid (raw_score (learningRate m) x (trees m))) X)"
  unfolding predictBatch_def by (rule map_err_Inr) (simp add: predictSingle_eq)

subsection \<open>The tree builder, case by case\<close>

lemma buildTree_unfold:
  "buildTree m X g d =
     (case split_decision m X g d of
        Inl e \<Rightarrow> Inl e
      | Inr None \<Rightarrow> Inr (Leaf (leaf_value g))
      | Inr (Some s) \<Rightarrow>
          (case buildTree m (leftX X s) (leftGrad g s) (d + 1) of
             Inl e \<Rightarrow> Inl e
           | Inr l \<Rightarrow>
               (case buildTree m (rightX X s) (rightGrad g s) (d + 1) of
                  Inl e \<Rightarrow> Inl e
                | Inr r \<Rightarrow> Inr (Internal (featureIndex s) (threshold s) l r))))"
  by (subst buildTree.simps)
     (simp add: split_decision_def leftX_def leftGrad_def rightX_def rightGrad_def
        split: sum.splits prod.splits option.splits)

lemma buildTree_Some:
  assumes "split_decision m X g d = Inr (Some s)"
  shows "buildTree m X g d =
          (case buildTree m (leftX X s) (leftGrad g s) (d + 1) of
             Inl e \<Rightarrow> Inl e
           | Inr l \<Rightarrow>
               (case buildTree m (rightX X s) (rightGrad g s) (d + 1) of
                  Inl e \<Rightarrow> Inl e
                | Inr r \<Rightarrow> Inr (Internal (featureIndex s) (threshold s) l r)))"
  by (subst buildTree_unfold) (simp add: assms)

lemma buildTree_None:
  assumes "split_decision m X g d = Inr None"
  shows "buildTree m X g d = Inr (Leaf (leaf_value g))"
  by (subst buildTree_unfold) (simp add: assms)

lemma buildTree_Inl:
  assumes "split_decision m X g d = Inl e"
  shows "buildTree m X g d = Inl e"
  by (subst buildTree_unfold) (simp add: assms)

lemma split_decision_Some:
  assumes "split_decision m X g d = Inr (Some s)"
  shows "valid_split X s" "\<not> stopping m g d"
  using assms findBestSplit_valid[of X g "sum_gradients g" "length g" _ s]
  by (auto simp: split_decision_def split: if_splits sum.splits prod.splits option.splits)

lemma split_decision_Inl:
  assumes "split_decision m X g d = Inl e"
  shows "X = [] \<and> e = TypeError \<and> \<not> stopping m g d"
  using assms
  by (auto simp: split_decision_def findBestSplit_def
      split: if_splits sum.splits prod.splits option.splits list.splits)

lemma split_decision_stopping: "stopping m g d \<Longrightarrow> split_decision m X g d = Inr None"
  by (simp add: split_decision_def)

lemma length_leftX: "valid_split X s \<Longrightarrow> length (leftX X s) < length X"
  and length_rightX: "valid_split X s \<Longrightarrow> length (rightX X s) < length X"
  by (simp_all add: leftX_def rightX_def valid_split_shorter)

lemma children_nonempty:
  "valid_split X s \<Longrightarrow> leftX X s \<noteq> []" "valid_split X s \<Longrightarrow> rightX X s \<noteq> []"
  by (simp_all add: leftX_def rightX_def valid_split_def)

lemma buildTree_induct2 [case_names step]:
  assumes step: "\<And>X g d.
      (\<And>s. split_decision m X g d = Inr (Some s) \<Longrightarrow> P (leftX X s) (leftGrad g s) (d + 1)) \<Longrightarrow>
      (\<And>s. split_decision m X g d = Inr (Some s) \<Longrightarrow> P (rightX X s) (rightGrad g s) (d + 1)) \<Longrightarrow>
      P X g d"
  shows "P X g d"
proof (induction "length X" arbitrary: X g d rule: less_induct)
  case less
  show ?case
    by (rule step; rule less) (auto dest: split_decision_Some(1) simp: length_leftX length_rightX)
qed

lemma buildTree_stopping: "stopping m g d \<Longrightarrow> buildTree m X g d = Inr (Leaf (leaf_value g))"
  by (subst buildTree_unfold) (simp add: split_decision_stopping)

lemma buildTree_nonempty: "X \<noteq> [] \<Longrightarrow> \<exists>t. buildTree m X g d = Inr t"
proof (induction X g d rule: buildTree_induct2[where m = m])
  case (step X g d)
  show ?case
  proof (cases "split_decision m X g d")
    case (Inl e)
    with step.prems show ?thesis by (simp add: split_decision_Inl)
  next
    case (Inr so)
    show ?thesis
    proof (cases so)
      case None
      with Inr show ?thesis by (subst buildTree_unfold) simp
    next
      case (Some s)
      with Inr have sd: "split_decision m X g d = Inr (Some s)" by simp
      then have vs: "valid_split X s" by (rule split_decision_Some)
      from step.IH(1)[OF sd children_nonempty(1)[OF vs]] step.IH(2)[OF sd children_nonempty(2)[OF vs]]
      show ?thesis using sd by (subst buildTree_unfold) auto
    qed
  qed
qed

lemma sum_gradients_Nil: "sum_gradients [] = Num 0"
  by (simp add: sum_gradients_def)

lemma stopping_Nil: "stopping m [] d"
  by (simp add: stopping_def sum_gradients_Nil)

lemma buildTree_same_length: "length X = length g \<Longrightarrow> \<exists>t. buildTree m X g d = Inr t"
  by (cases "X = []") (auto simp: buildTree_stopping stopping_Nil buildTree_nonempty)

lemma split_decision_cong:
  "maxDepth m = maxDepth m' \<Longrightarrow> minChildWeight m = minChildWeight m' \<Longrightarrow>
   split_decision m X g d = split_decision m' X g d"
  by (simp add: split_decision_def stopping_def)

lemma buildTree_cong:
  assumes "maxDepth m = maxDepth m'" "minChildWeight m = minChildWeight m'"
  shows "buildTree m X g d = buildTree m' X g d"
proof (induction X g d rule: buildTree_induct2[where m = m])
  case (step X g d)
  have sd: "split_decision m' X g d = split_decision m X g d"
    by (rule split_decision_cong) (simp_all add: assms)
  show ?case
  proof (cases "split_decision m X g d")
    case (Inl e)
    then show ?thesis
      by (simp add: buildTree_unfold[of m X] buildTree_unfold[of m' X] sd)
  next
    case (Inr so)
    show ?thesis
    proof (cases so)
      case None
      with Inr show ?thesis
        by (simp add: buildTree_unfold[of m X] buildTree_unfold[of m' X] sd)
    next
      case (Some s)
      with Inr have e: "split_decision m X g d = Inr (Some s)" by simp
      have "buildTree k X g d =
          (case buildTree k (leftX X s) (leftGrad g s) (d + 1) of
             Inl e \<Rightarrow> Inl e
           | Inr l \<Rightarrow>
               (case buildTree k (rightX X s) (rightGrad g s) (d + 1) of
                  Inl e \<Rightarrow> Inl e
                | Inr r \<Rightarrow> Inr (Internal (featureIndex s) (threshold s) l r)))"
        if "split_decision k X g d = Inr (Some s)" for k
        by (subst buildTree_unfold) (simp add: that)
      from this[of m] this[of m'] show ?thesis
        unfolding sd step.IH(1)[OF e] step.IH(2)[OF e] using e by simp
    qed
  qed
qed

lemma buildTree_error: "buildTree m X g d = Inl e \<Longrightarrow> e = TypeError"
proof (induction X g d rule: buildTree_induct2[where m = m])
  case (step X g d)
  from step.prems show ?case
    apply (subst (asm) buildTree_unfold)
    using step.IH by (auto split: sum.splits option.splits dest: split_decision_Inl)
qed

subsection \<open>Errors and lengths\<close>

lemma predict_error: "predict x t = Inl e \<Longrightarrow> e = TypeError"
  by (induction t) (auto split: option.splits if_splits)

lemma map_err_error:
  "map_err f xs = Inl e \<Longrightarrow> \<exists>x \<in> set xs. f x = Inl e"
  by (induction xs) (auto split: sum.splits)

lemma map_err_length: "map_err f xs = Inr ys \<Longrightarrow> length ys = length xs"
  by (induction xs arbitrary: ys) (auto split: sum.splits)

lemma update_predictions_error: "update_predictions m X tree p = Inl e \<Longrightarrow> e = TypeError"
  by (auto simp: update_predictions_def dest!: map_err_error predict_error split: sum.splits)

lemma update_predictions_length: "update_predictions m X tree p = Inr p' \<Longrightarrow> length p' = length p"
  by (auto simp: update_predictions_def dest: map_err_length)

lemma update_predictions_cong:
  "learningRate m = learningRate m' \<Longrightarrow> update_predictions m X tree p = update_predictions m' X tree p"
  by (simp only: update_predictions_def)

lemma update_predictions_rows:
  assumes "length p \<le> length X"
  shows "update_predictions m X tree p =
     Inr (map (\<lambda>idx. js_add (p ! idx) (js_mul (Num (learningRate m)) (traverse (X ! idx) tree)))
            [0..<length p])"
  unfolding update_predictions_def
  using assms by (intro map_err_Inr) (simp add: js_row_def predict_Some)

lemma update_predictions_Leaf:
  "update_predictions m X (Leaf v) p = Inr (map (\<lambda>pred. js_add pred (js_mul (Num (learningRate m)) v)) p)"
proof -
  have "update_predictions m X (Leaf v) p =
      Inr (map (\<lambda>idx. js_add (p ! idx) (js_mul (Num (learningRate m)) v)) [0..<length p])"
    unfolding update_predictions_def by (intro map_err_Inr) simp
  also have "map (\<lambda>idx. js_add (p ! idx) (js_mul (Num (learningRate m)) v)) [0..<length p]
      = map (\<lambda>pred. js_add pred (js_mul (Num (learningRate m)) v)) p"
    by (rule nth_equalityI) simp_all
  finally show ?thesis .
qed

lemma length_gradients_of: "length (gradients_of y p) = length y"
  by (simp add: gradients_of_def)

subsection \<open>The loop of \<open>fit\<close>\<close>

lemma fit_loop_trees:
  "fit_loop k (m\<lparr>trees := ts\<rparr>) X y p =
     (fst (fit_loop k (m\<lparr>trees := []\<rparr>) X y p),
      m\<lparr>trees := ts @ trees (snd (fit_loop k (m\<lparr>trees := []\<rparr>) X y p))\<rparr>)"
proof (induction k arbitrary: ts p)
  case 0
  show ?case by simp
next
  case (Suc k)
  let ?g = "gradients_of y p"
  have bt: "buildTree (m\<lparr>trees := ts\<rparr>) X ?g 0 = buildTree (m\<lparr>trees := []\<rparr>) X ?g 0"
    by (rule buildTree_cong) simp_all
  show ?case
  proof (cases "buildTree (m\<lparr>trees := []\<rparr>) X ?g 0")
    case (Inl e)
    then show ?thesis by (simp add: bt)
  next
    case (Inr tree)
    have up: "update_predictions (m\<lparr>trees := us\<rparr>) X tree p = update_predictions m X tree p" for us
      by (rule update_predictions_cong) simp
    show ?thesis
    proof (cases "update_predictions m X tree p")
      case (Inl e)
      then show ?thesis using Inr by (simp add: bt up)
    next
      case (Inr p')
      show ?thesis
        using \<open>buildTree (m\<lparr>trees := []\<rparr>) X ?g 0 = Inr tree\<close> Inr
          Suc.IH[of "ts @ [tree]" p'] Suc.IH[of "[tree]" p']
        by (simp add: bt up)
    qed
  qed
qed

lemma fit_loop_error: "fst (fit_loop k m X y p) = Some e \<Longrightarrow> e = TypeError"
proof (induction k arbitrary: m p)
  case 0
  then show ?case by simp
next
  case (Suc k)
  then show ?case
    by (auto simp: Let_def split: sum.splits dest: buildTree_error update_predictions_error)
qed

lemma fit_loop_same_length:
  assumes "length X = length y" "length p = length y"
  shows "fst (fit_loop k m X y p) = None
       \<and> length (trees (snd (fit_loop k m X y p))) = length (trees m) + k"
  using assms(2)
proof (induction k arbitrary: m p)
  case 0
  show ?case by simp
next
  case (Suc k)
  from assms(1) obtain tree where t: "buildTree m X (gradients_of y p) 0 = Inr tree"
    using buildTree_same_length[of X "gradients_of y p" m 0] by (auto simp: length_gradients_of)
  let ?m = "m\<lparr>trees := trees m @ [tree]\<rparr>"
  from Suc.prems assms(1) obtain p' where p': "update_predictions ?m X tree p = Inr p'"
    by (simp add: update_predictions_rows)
  then have "length p' = length y" using Suc.prems by (simp add: update_predictions_length)
  from Suc.IH[OF this, of ?m] t p' show ?case by simp
qed

lemma stopping_depth0: "maxDepth m \<le> 0 \<Longrightarrow> stopping m g 0"
  by (simp add: stopping_def)

lemma fit_loop_leaf_rounds:
  assumes "maxDepth m \<le> 0"
  shows "fit_loop k m X y p = (None, m\<lparr>trees := trees m @ leaf_rounds k (learningRate m) y p\<rparr>)"
  using assms
proof (induction k arbitrary: m p)
  case 0
  show ?case by simp
next
  case (Suc k)
  let ?v = "leaf_value (gradients_of y p)"
  let ?m = "m\<lparr>trees := trees m @ [Leaf ?v]\<rparr>"
  have "buildTree m X (gradients_of y p) 0 = Inr (Leaf ?v)"
    using Suc.prems by (simp add: buildTree_stopping stopping_depth0)
  moreover have "maxDepth ?m \<le> 0" using Suc.prems by simp
  note Suc.IH[OF this, of "map (\<lambda>pred. js_add pred (js_mul (Num (learningRate m)) ?v)) p"]
  ultimately show ?case
    by (simp add: update_predictions_Leaf Let_def)
qed

lemma fit_trees:
  "fit m X y =
     (fst (fit (m\<lparr>trees := []\<rparr>) X y),
      m\<lparr>trees := trees m @ trees (snd (fit (m\<lparr>trees := []\<rparr>) X y))\<rparr>)"
  using fit_loop_trees[where k = "rounds m" and m = m and ts = "trees m" and X = X and y = y
      and p = "replicate (length y) (Num (1 / 2))"]
  by (simp add: fit_def rounds_def)

lemma fit_same_length:
  assumes "length X = length y"
  shows "fst (fit m X y) = None"
    and "length (trees (snd (fit m X y))) = length (trees m) + rounds m"
  using fit_loop_same_length[OF assms, of "replicate (length y) (Num (1 / 2))" "rounds m" m]
  by (simp_all add: fit_def)

lemma fit_error: "fst (fit m X y) = Some e \<Longrightarrow> e = TypeError"
  unfolding fit_def by (rule fit_loop_error)


subsection \<open>The order of the rows and the gain of a candidate\<close>

text \<open>
  Where every row has the feature, the comparison function of the scan orders the rows
  as a stable sort by that feature does; and on gradients that are numbers the gain of a
  candidate is the formula of the split search, with the sum \<open>L\<close> of the gradients to the
  left of the boundary and the sum \<open>S\<close> of all.
\<close>

lemma insert_by_insort_key:
  assumes "\<forall>y \<in> set ys. c x y = Num (k x - k y)"
  shows "insert_by c x ys = insort_key k x ys"
  using assms by (induction ys) auto

lemma sort_by_sort_key:
  assumes "\<forall>x \<in> set xs. \<forall>y \<in> set xs. c x y = Num (k x - k y)"
  shows "sort_by c xs = sort_key k xs"
proof -
  have "set ys \<subseteq> set xs \<Longrightarrow> foldr (insert_by c) ys [] = foldr (insort_key k) ys []" for ys
  proof (induction ys)
    case Nil
    show ?case by simp
  next
    case (Cons y ys)
    then have "foldr (insert_by c) ys [] = foldr (insort_key k) ys []" by simp
    moreover have "\<forall>z \<in> set (foldr (insort_key k) ys []). c y z = Num (k y - k z)"
      using Cons.prems assms by (auto simp: sort_key_def[symmetric])
    ultimately show ?case
      by (simp add: insert_by_insort_key)
  qed
  then show ?thesis
    by (simp add: sort_by_def sort_key_def)
qed

lemma sorted_indices_stable_sort:
  assumes "\<forall>row \<in> set X. f < length row"
  shows "sorted_indices X f = sort_key (\<lambda>a. X ! a ! f) [0..<length X]"
  unfolding sorted_indices_def
  by (rule sort_by_sort_key) (use assms in \<open>auto simp: feature_def js_elem_def\<close>)

lemma foldl_js_add_Num: "foldl js_add (Num a) (map Num xs) = Num (a + sum_list xs)"
  by (induction xs arbitrary: a) (simp_all add: algebra_simps)

lemma foldl_js_sub_Num: "foldl js_sub (Num a) (map Num xs) = Num (a - sum_list xs)"
  by (induction xs arbitrary: a) (simp_all add: algebra_simps)

lemma sum_gradients_Num: "sum_gradients (map Num gs) = Num (sum_list gs)"
  by (simp add: sum_gradients_def foldl_js_add_Num)

lemma gain_of_Num:
  assumes "real_of_int lc + eps \<noteq> 0" "real_of_int rc + eps \<noteq> 0" "real n + eps \<noteq> 0"
  shows "gain_of (Num a) lc (Num b) rc (Num s) n =
     Num (a * a / (real_of_int lc + eps) + b * b / (real_of_int rc + eps) - s * s / (real n + eps))"
  using assms by (simp add: gain_of_def)

lemma candidate_gain_formula:
  fixes X :: "real list list" and gs :: "real list" and f i :: nat
  assumes "length X = length gs" "i + 1 < length X"
  defines "L \<equiv> sum_list (map (\<lambda>a. gs ! a) (take (i + 1) (sorted_indices X f)))"
  defines "S \<equiv> sum_list gs"
  shows "candidate_gain X (map Num gs) f i =
     Num (L * L / (real (i + 1) + eps) + (S - L) * (S - L) / (real (length gs - (i + 1)) + eps)
          - S * S / (real (length gs) + eps))"
proof -
  have "set (take (i + 1) (sorted_indices X f)) \<subseteq> {0..<length gs}"
    using set_take_subset[of "i + 1" "sorted_indices X f"] assms(1)
    by (simp add: set_sorted_indices)
  then have m: "map (js_nth (map Num gs)) (take (i + 1) (sorted_indices X f))
      = map Num (map (\<lambda>a. gs ! a) (take (i + 1) (sorted_indices X f)))"
    by (auto simp: js_nth_def)
  have l: "real_of_int (int (i + 1)) = real (i + 1)"
    by simp
  have r: "real_of_int (int (length gs) - int (i + 1)) = real (length gs - (i + 1))"
    using assms(1,2) by simp
  have nz: "real k + eps \<noteq> 0" for k :: nat
    using add_nonneg_pos[of "real k" eps] by simp
  have d: "real_of_int (int (i + 1)) + eps \<noteq> 0"
    "real_of_int (int (length gs) - int (i + 1)) + eps \<noteq> 0"
    "real (length gs) + eps \<noteq> 0"
    unfolding l r by (rule nz)+
  have "candidate_gain X (map Num gs) f i =
      gain_of (Num L) (int (i + 1)) (Num (S - L)) (int (length gs) - int (i + 1))
        (Num S) (length gs)"
    unfolding candidate_gain_def Let_def m foldl_js_add_Num foldl_js_sub_Num sum_gradients_Num
      L_def S_def by simp
  also have "\<dots> = Num (L * L / (real (i + 1) + eps)
      + (S - L) * (S - L) / (real (length gs - (i + 1)) + eps) - S * S / (real (length gs) + eps))"
    unfolding gain_of_Num[OF d] l r by (rule refl)
  finally show ?thesis .
qed

section \<open>C1: input validation in \<open>fit\<close>\<close>

text \<open>
  C1, as the claim states it, fails: \<open>fit\<close> accepts an empty data set, rows of different
  arity and \<open>X\<close> and \<open>y\<close> of different lengths, raises nothing and builds its trees.
\<close>

theorem fit_accepts_invalid_input:
  "fit (XGBoost \<lparr>p_learningRate = Undefined, p_maxDepth = Undefined, p_minChildWeight = Undefined,
          p_numRounds = Num 1\<rparr>) [] []
     = (None, \<lparr>learningRate = 3 / 10, maxDepth = 4, minChildWeight = 1, numRounds = 1,
               trees = [Leaf (Num 0)]\<rparr>)
   \<and> fit (XGBoost \<lparr>p_learningRate = Undefined, p_maxDepth = Undefined, p_minChildWeight = Undefined,
          p_numRounds = Num 1\<rparr>) [[1, 2], [3]] [1, 4]
     = (None, \<lparr>learningRate = 3 / 10, maxDepth = 4, minChildWeight = 1, numRounds = 1,
               trees = [Internal 0 (Num 2) (Leaf (Num (5000000000 / 10000000001)))
                          (Leaf (Num (35000000000 / 10000000001)))]\<rparr>)
   \<and> fit (XGBoost \<lparr>p_learningRate = Undefined, p_maxDepth = Undefined, p_minChildWeight = Undefined,
          p_numRounds = Num 1\<rparr>) [[1], [2]] [1]
     = (None, \<lparr>learningRate = 3 / 10, maxDepth = 4, minChildWeight = 1, numRounds = 1,
               trees = [Leaf (Num (5000000000 / 10000000001))]\<rparr>)"
  by code_simp

text \<open>
  C1, amended: \<open>fit\<close> validates nothing and never fails with \<open>InvalidInput\<close>; whenever
  \<open>X.length == y.length\<close>, the empty data set and rows of differing arity included, it
  completes without an error and appends one tree for every round.
\<close>

theorem fit_no_validation:
  "fst (fit m X y) \<noteq> Some InvalidInput
   \<and> (length X = length y \<longrightarrow>
        fst (fit m X y) = None
        \<and> length (trees (snd (fit m X y))) = length (trees m) + rounds m)"
  using fit_error[of m X y InvalidInput] fit_same_length[of X y m] by auto

theorem fit_no_validation_witness:
  "length [[1, 2], [3 :: real]] = length [1, 4 :: real]
   \<and> fst (fit (XGBoost \<lparr>p_learningRate = Undefined, p_maxDepth = Undefined, p_minChildWeight = Undefined,
          p_numRounds = Num 1\<rparr>) [[1, 2], [3]] [1, 4]) = None
   \<and> length (trees (snd (fit (XGBoost \<lparr>p_learningRate = Undefined, p_maxDepth = Undefined,
          p_minChildWeight = Undefined, p_numRounds = Num 1\<rparr>) [[1, 2], [3]] [1, 4])))
       = length (trees (XGBoost \<lparr>p_learningRate = Undefined, p_maxDepth = Undefined,
          p_minChildWeight = Undefined, p_numRounds = Num 1\<rparr>))
         + rounds (XGBoost \<lparr>p_learningRate = Undefined, p_maxDepth = Undefined,
          p_minChildWeight = Undefined, p_numRounds = Num 1\<rparr>)"
  using fit_no_validation [of "XGBoost \<lparr>p_learningRate = Undefined, p_maxDepth = Undefined,
          p_minChildWeight = Undefined, p_numRounds = Num 1\<rparr>" "[[1, 2], [3]]" "[1, 4]"]
  by simp

section \<open>C2: feature importance\<close>

lemma length_js_set: "length (js_set xs i v) = max (length xs) (i + 1)"
  by (auto simp: js_set_def)

lemma length_traverseTreeForImportance:
  "length (traverseTreeForImportance t imp) = max (length imp) (getNumFeatures t)"
  by (induction t arbitrary: imp) (auto simp: length_js_set)

lemma length_fold_traverse:
  "length (fold traverseTreeForImportance ts imp)
     = fold (\<lambda>t n. max n (getNumFeatures t)) ts (length imp)"
  by (induction ts arbitrary: imp) (simp_all add: length_traverseTreeForImportance)

text \<open>
  The length of the result is one more than the largest feature index of all trees
  (writing beyond the end extends a JavaScript array), zero without an internal node.
\<close>

lemma length_getFeatureImportance:
  "length (getFeatureImportance m) = fold (\<lambda>t n. max n (getNumFeatures t)) (trees m) 0"
  by (cases "trees m")
     (simp_all add: getFeatureImportance_def length_fold_traverse length_traverseTreeForImportance)

lemma fit_two_features:
  "fit (XGBoost \<lparr>p_learningRate = Num 1, p_maxDepth = Num 1, p_minChildWeight = Undefined,
          p_numRounds = Num 2\<rparr>) [[0, 0], [0, 1], [1, 0], [1, 1]] [0, 1, 3, 4]
     = (None,
        \<lparr>learningRate = 1, maxDepth = 1, minChildWeight = 1, numRounds = 2,
         trees =
           [Internal 0 (Num (1 / 2)) (Leaf (Num 0)) (Leaf (Num (20000000000 / 6666666667))),
            Internal 1 (Num (1 / 2))
              (Leaf (Num (- (22222222220000000000 / 44444444448888888889))))
              (Leaf (Num (66666666680000000000 / 133333333346666666667)))]\<rparr>)"
  by code_simp

text \<open>
  C2 fails on the code: the array is sized from the first tree alone, so the count of a
  feature that only a later tree splits on starts from a missing entry and is \<open>NaN\<close>.
  Trained in two rounds on four samples, the first tree splits on feature 0 and the
  second on feature 1: \<open>getFeatureImportance\<close> returns \<open>[1, NaN]\<close>, not \<open>[1, 1]\<close>.
\<close>

theorem importance_of_later_feature_is_NaN:
  "trees (snd (fit (XGBoost \<lparr>p_learningRate = Num 1, p_maxDepth = Num 1,
          p_minChildWeight = Undefined, p_numRounds = Num 2\<rparr>)
          [[0, 0], [0, 1], [1, 0], [1, 1]] [0, 1, 3, 4]))
     = [Internal 0 (Num (1 / 2)) (Leaf (Num 0)) (Leaf (Num (20000000000 / 6666666667))),
        Internal 1 (Num (1 / 2))
          (Leaf (Num (- (22222222220000000000 / 44444444448888888889))))
          (Leaf (Num (66666666680000000000 / 133333333346666666667)))]
   \<and> getFeatureImportance (snd (fit (XGBoost \<lparr>p_learningRate = Num 1, p_maxDepth = Num 1,
          p_minChildWeight = Undefined, p_numRounds = Num 2\<rparr>)
          [[0, 0], [0, 1], [1, 0], [1, 1]] [0, 1, 3, 4]))
     = [Num 1, NaN]"
  by (simp add: fit_two_features getFeatureImportance_def js_set_def js_nth_def)

section \<open>C3: models that never split\<close>

text \<open>
  C3, as the claim states it, fails: the constructor replaces a supplied \<open>maxDepth = 0\<close> by
  the default 4, and the tree of the model so constructed has an internal root.
\<close>

theorem zero_maxDepth_builds_internal:
  "maxDepth (XGBoost \<lparr>p_learningRate = Num 1, p_maxDepth = Num 0, p_minChildWeight = Undefined,
          p_numRounds = Num 1\<rparr>) = 4
   \<and> fit (XGBoost \<lparr>p_learningRate = Num 1, p_maxDepth = Num 0, p_minChildWeight = Undefined,
          p_numRounds = Num 1\<rparr>) [[0], [10]] [1, 3]
     = (None, \<lparr>learningRate = 1, maxDepth = 4, minChildWeight = 1, numRounds = 1,
               trees = [Internal 0 (Num 5) (Leaf (Num (5000000000 / 10000000001)))
                          (Leaf (Num (25000000000 / 10000000001)))]\<rparr>)"
  by code_simp

text \<open>
  C3, amended: for every model whose stored \<open>maxDepth\<close> is zero or less (from the
  constructor: a negative supplied value), \<open>fit\<close> completes and every tree it appends is
  a single leaf whose value is \<open>sumGrad / (count + 1e-10)\<close> over that round's gradients.
\<close>

theorem fit_nonpositive_maxDepth:
  assumes "maxDepth m \<le> 0"
  shows "fit m X y =
     (None, m\<lparr>trees := trees m @
        leaf_rounds (rounds m) (learningRate m) y (replicate (length y) (Num (1 / 2)))\<rparr>)"
  unfolding fit_def by (rule fit_loop_leaf_rounds[OF assms])

theorem fit_nonpositive_maxDepth_witness:
  "maxDepth (XGBoost \<lparr>p_learningRate = Undefined, p_maxDepth = Num (- 1), p_minChildWeight = Undefined,
          p_numRounds = Num 2\<rparr>) \<le> 0
   \<and> fit (XGBoost \<lparr>p_learningRate = Undefined, p_maxDepth = Num (- 1), p_minChildWeight = Undefined,
          p_numRounds = Num 2\<rparr>) [[0], [10]] [1, 3]
     = (None, (XGBoost \<lparr>p_learningRate = Undefined, p_maxDepth = Num (- 1),
          p_minChildWeight = Undefined, p_numRounds = Num 2\<rparr>)
          \<lparr>trees := trees (XGBoost \<lparr>p_learningRate = Undefined, p_maxDepth = Num (- 1),
                      p_minChildWeight = Undefined, p_numRounds = Num 2\<rparr>) @
             leaf_rounds (rounds (XGBoost \<lparr>p_learningRate = Undefined, p_maxDepth = Num (- 1),
                      p_minChildWeight = Undefined, p_numRounds = Num 2\<rparr>))
               (learningRate (XGBoost \<lparr>p_learningRate = Undefined, p_maxDepth = Num (- 1),
                      p_minChildWeight = Undefined, p_numRounds = Num 2\<rparr>))
               [1, 3] (replicate (length [1, 3 :: real]) (Num (1 / 2)))\<rparr>)"
proof -
  have h: "maxDepth (XGBoost \<lparr>p_learningRate = Undefined, p_maxDepth = Num (- 1),
      p_minChildWeight = Undefined, p_numRounds = Num 2\<rparr>) \<le> 0"
    by (simp add: XGBoost_def)
  from fit_nonpositive_maxDepth[OF h, of "[[0], [10]]" "[1, 3]"] h show ?thesis
    by blast
qed

section \<open>C4: the constructor\<close>

text \<open>
  C4, as the claim states it, fails: a hyperparameter supplied as zero is not stored, the
  constructor's \<open>||\<close> replaces it by the default.
\<close>

theorem constructor_zero_takes_default:
  "learningRate (XGBoost \<lparr>p_learningRate = Num 0, p_maxDepth = Num 0,
       p_minChildWeight = Num 0, p_numRounds = Num 0\<rparr>) = 3 / 10
   \<and> learningRate (XGBoost \<lparr>p_learningRate = Num 0, p_maxDepth = Num 0,
       p_minChildWeight = Num 0, p_numRounds = Num 0\<rparr>) \<noteq> 0
   \<and> maxDepth (XGBoost \<lparr>p_learningRate = Num 0, p_maxDepth = Num 0,
       p_minChildWeight = Num 0, p_numRounds = Num 0\<rparr>) = 4
   \<and> minChildWeight (XGBoost \<lparr>p_learningRate = Num 0, p_maxDepth = Num 0,
       p_minChildWeight = Num 0, p_numRounds = Num 0\<rparr>) = 1
   \<and> numRounds (XGBoost \<lparr>p_learningRate = Num 0, p_maxDepth = Num 0,
       p_minChildWeight = Num 0, p_numRounds = Num 0\<rparr>) = 100"
  by (simp add: XGBoost_def)

text \<open>
  \<open>NaN\<close> is falsy too, and takes the default like zero and like a missing field.
\<close>

lemma constructor_falsy_takes_default:
  "p_learningRate ps \<in> {Num 0, NaN, Undefined} \<Longrightarrow> learningRate (XGBoost ps) = 3 / 10"
  "p_maxDepth ps \<in> {Num 0, NaN, Undefined} \<Longrightarrow> maxDepth (XGBoost ps) = 4"
  "p_minChildWeight ps \<in> {Num 0, NaN, Undefined} \<Longrightarrow> minChildWeight (XGBoost ps) = 1"
  "p_numRounds ps \<in> {Num 0, NaN, Undefined} \<Longrightarrow> numRounds (XGBoost ps) = 100"
  by (auto simp: XGBoost_def)

text \<open>
  C4, amended: every hyperparameter supplied with a truthy value, a number that is
  neither zero nor \<open>NaN\<close>, negative values included, is stored unchanged, without
  validation; a field missing from the parameter record takes its default
  \<open>learningRate = 0.3\<close>, \<open>maxDepth = 4\<close>, \<open>minChildWeight = 1\<close>, \<open>numRounds = 100\<close>; the tree
  list starts empty.
\<close>

theorem constructor_stores_truthy:
  "(p_learningRate ps = Num a \<and> a \<noteq> 0 \<longrightarrow> learningRate (XGBoost ps) = a)
   \<and> (p_maxDepth ps = Num b \<and> b \<noteq> 0 \<longrightarrow> maxDepth (XGBoost ps) = b)
   \<and> (p_minChildWeight ps = Num c \<and> c \<noteq> 0 \<longrightarrow> minChildWeight (XGBoost ps) = c)
   \<and> (p_numRounds ps = Num d \<and> d \<noteq> 0 \<longrightarrow> numRounds (XGBoost ps) = d)
   \<and> (p_learningRate ps = Undefined \<longrightarrow> learningRate (XGBoost ps) = 3 / 10)
   \<and> (p_maxDepth ps = Undefined \<longrightarrow> maxDepth (XGBoost ps) = 4)
   \<and> (p_minChildWeight ps = Undefined \<longrightarrow> minChildWeight (XGBoost ps) = 1)
   \<and> (p_numRounds ps = Undefined \<longrightarrow> numRounds (XGBoost ps) = 100)
   \<and> trees (XGBoost ps) = []"
  by (simp add: XGBoost_def)

theorem constructor_stores_truthy_witness:
  "learningRate (XGBoost \<lparr>p_learningRate = Num (- 1), p_maxDepth = Num (5 / 2),
       p_minChildWeight = Num 7, p_numRounds = Num (- 5)\<rparr>) = - 1
   \<and> maxDepth (XGBoost \<lparr>p_learningRate = Num (- 1), p_maxDepth = Num (5 / 2),
       p_minChildWeight = Num 7, p_numRounds = Num (- 5)\<rparr>) = 5 / 2
   \<and> minChildWeight (XGBoost \<lparr>p_learningRate = Num (- 1), p_maxDepth = Num (5 / 2),
       p_minChildWeight = Num 7, p_numRounds = Num (- 5)\<rparr>) = 7
   \<and> numRounds (XGBoost \<lparr>p_learningRate = Num (- 1), p_maxDepth = Num (5 / 2),
       p_minChildWeight = Num 7, p_numRounds = Num (- 5)\<rparr>) = - 5
   \<and> learningRate (XGBoost \<lparr>p_learningRate = Undefined, p_maxDepth = Undefined,
       p_minChildWeight = Undefined, p_numRounds = Undefined\<rparr>) = 3 / 10
   \<and> maxDepth (XGBoost \<lparr>p_learningRate = Undefined, p_maxDepth = Undefined,
       p_minChildWeight = Undefined, p_numRounds = Undefined\<rparr>) = 4
   \<and> minChildWeight (XGBoost \<lparr>p_learningRate = Undefined, p_maxDepth = Undefined,
       p_minChildWeight = Undefined, p_numRounds = Undefined\<rparr>) = 1
   \<and> numRounds (XGBoost \<lparr>p_learningRate = Undefined, p_maxDepth = Undefined,
       p_minChildWeight = Undefined, p_numRounds = Undefined\<rparr>) = 100"
  using
    constructor_stores_truthy [of "\<lparr>p_learningRate = Num (- 1), p_maxDepth = Num (5 / 2),
       p_minChildWeight = Num 7, p_numRounds = Num (- 5)\<rparr>" "- 1" "5 / 2" 7 "- 5"]
    constructor_stores_truthy [of "\<lparr>p_learningRate = Undefined, p_maxDepth = Undefined,
       p_minChildWeight = Undefined, p_numRounds = Undefined\<rparr>"]
  by simp

section \<open>C5: prediction with a missing feature\<close>

lemma fit_one_feature:
  "fit (XGBoost \<lparr>p_learningRate = Undefined, p_maxDepth = Undefined, p_minChildWeight = Undefined,
          p_numRounds = Num 1\<rparr>) [[0], [10]] [1, 3]
     = (None, \<lparr>learningRate = 3 / 10, maxDepth = 4, minChildWeight = 1, numRounds = 1,
               trees = [Internal 0 (Num 5) (Leaf (Num (5000000000 / 10000000001)))
                          (Leaf (Num (25000000000 / 10000000001)))]\<rparr>)"
  by code_simp

text \<open>
  C5, as the claim states it, fails: a traversal that reads a feature beyond the vector's
  arity raises no error, in \<open>_predict\<close>, \<open>predictSingle\<close> and \<open>predictBatch\<close> alike. The
  model is trained on rows of one feature and asked about the empty feature vector.
\<close>

theorem predict_missing_feature_no_error:
  "trees (snd (fit (XGBoost \<lparr>p_learningRate = Undefined, p_maxDepth = Undefined, p_minChildWeight = Undefined,
          p_numRounds = Num 1\<rparr>) [[0], [10]] [1, 3]))
     = [Internal 0 (Num 5) (Leaf (Num (5000000000 / 10000000001)))
          (Leaf (Num (25000000000 / 10000000001)))]
   \<and> predict (Some []) (Internal 0 (Num 5) (Leaf (Num (5000000000 / 10000000001)))
          (Leaf (Num (25000000000 / 10000000001))))
     = Inr (Num (25000000000 / 10000000001))
   \<and> predictSingle (snd (fit (XGBoost \<lparr>p_learningRate = Undefined, p_maxDepth = Undefined,
          p_minChildWeight = Undefined, p_numRounds = Num 1\<rparr>) [[0], [10]] [1, 3])) []
     = Inr (sigmoid (Num (1 / 2 + 3 / 10 * (25000000000 / 10000000001))))
   \<and> predictBatch (snd (fit (XGBoost \<lparr>p_learningRate = Undefined, p_maxDepth = Undefined,
          p_minChildWeight = Undefined, p_numRounds = Num 1\<rparr>) [[0], [10]] [1, 3])) [[]]
     = Inr [sigmoid (Num (1 / 2 + 3 / 10 * (25000000000 / 10000000001)))]"
  by (simp add: fit_one_feature predictSingle_eq predictBatch_eq raw_score_def js_elem_def)

text \<open>
  C5, amended: a traversal that reaches an internal node whose \<open>featureIndex\<close> lies beyond
  the arity of the feature vector raises no error: the comparison with the missing
  feature is false and the traversal goes on in the right child; \<open>predictSingle\<close> and
  \<open>predictBatch\<close> return a value for every input.
\<close>

theorem predict_missing_feature_routes_right:
  "(length x \<le> f \<longrightarrow> predict (Some x) (Internal f t l r) = predict (Some x) r)
   \<and> (\<exists>v. predictSingle m x = Inr v)
   \<and> (\<exists>vs. predictBatch m B = Inr vs)"
  by (simp add: js_elem_def predictSingle_eq predictBatch_eq)

theorem predict_missing_feature_routes_right_witness:
  "length ([] :: real list) \<le> 0
   \<and> predict (Some []) (Internal 0 (Num 5) (Leaf (Num 1)) (Leaf (Num 2)))
       = predict (Some []) (Leaf (Num 2))"
  using predict_missing_feature_routes_right [of "[]" 0 "Num 5" "Leaf (Num 1)" "Leaf (Num 2)"]
  by simp

section \<open>C6: the serialization round trip\<close>

text \<open>
  The constructor, which \<open>fromJSON\<close> calls, keeps every hyperparameter that is truthy, and
  the hyperparameters of a constructed model are truthy; so the round trip gives the
  model back. A value compares as less than \<open>1e-6\<close> away from itself exactly when it is a
  number.
\<close>

lemma is_num_iff: "is_num v \<longleftrightarrow> (\<exists>a. v = Num a)"
  by (cases v) auto

lemma close_to_itself: "js_lt (js_abs (js_sub v v)) (Num (1 / 10 ^ 6)) \<longleftrightarrow> is_num v"
  by (cases v) auto

lemma js_or_nonzero: "d \<noteq> 0 \<Longrightarrow> js_or v d \<noteq> 0"
  by (cases v) auto

lemma js_or_Num: "v \<noteq> 0 \<Longrightarrow> js_or (Num v) d = v"
  by simp

lemma roundtrip_identity: "truthy_hyperparameters m \<Longrightarrow> fromJSON (toJSON m) = m"
  by (cases m) (simp add: truthy_hyperparameters_def fromJSON_def toJSON_def XGBoost_def js_or_Num)

lemma truthy_XGBoost: "truthy_hyperparameters (XGBoost ps)"
  by (simp add: truthy_hyperparameters_def XGBoost_def js_or_nonzero)

lemma truthy_fit: "truthy_hyperparameters m \<Longrightarrow> truthy_hyperparameters (snd (fit m X y))"
  by (subst fit_trees) (simp add: truthy_hyperparameters_def)

lemma roundtrip_trained: "fromJSON (toJSON (snd (fit (XGBoost ps) X y))) = snd (fit (XGBoost ps) X y)"
  by (intro roundtrip_identity truthy_fit truthy_XGBoost)

lemma fit_more_rows_than_labels:
  "fit (XGBoost \<lparr>p_learningRate = Undefined, p_maxDepth = Undefined,
          p_minChildWeight = Undefined, p_numRounds = Num 1\<rparr>) [[0], [10], [20]] [1, 3]
     = (None, \<lparr>learningRate = 3 / 10, maxDepth = 4, minChildWeight = 1, numRounds = 1,
               trees = [Internal 0 (Num 5) (Leaf (Num (5000000000 / 10000000001)))
                          (Leaf NaN)]\<rparr>)"
  by code_simp

text \<open>
  C6, as the claim states it, fails: \<open>fit\<close> on three rows and two labels completes, the
  right leaf of its tree carries \<open>NaN\<close>, and the prediction for a row that reaches it is
  \<open>NaN\<close> before and after the round trip; \<open>|NaN - NaN| < 1e-6\<close> is false.
\<close>

theorem roundtrip_NaN_not_close:
  "fst (fit (XGBoost \<lparr>p_learningRate = Undefined, p_maxDepth = Undefined,
          p_minChildWeight = Undefined, p_numRounds = Num 1\<rparr>) [[0], [10], [20]] [1, 3]) = None
   \<and> predictBatch (snd (fit (XGBoost \<lparr>p_learningRate = Undefined, p_maxDepth = Undefined,
          p_minChildWeight = Undefined, p_numRounds = Num 1\<rparr>) [[0], [10], [20]] [1, 3]))
        [[20]] = Inr [NaN]
   \<and> predictBatch (fromJSON (toJSON (snd (fit (XGBoost \<lparr>p_learningRate = Undefined,
          p_maxDepth = Undefined, p_minChildWeight = Undefined, p_numRounds = Num 1\<rparr>)
          [[0], [10], [20]] [1, 3])))) [[20]] = Inr [NaN]
   \<and> \<not> js_lt (js_abs (js_sub ([NaN] ! 0) ([NaN] ! 0))) (Num (1 / 10 ^ 6))"
  unfolding roundtrip_trained
  by (simp add: fit_more_rows_than_labels predictBatch_eq raw_score_def sigmoid_def js_elem_def)

text \<open>
  C6, amended: for an ensemble constructed and then trained by \<open>fit\<close>, \<open>fromJSON\<close> after
  \<open>toJSON\<close> gives the same model back, and for every batch \<open>predictBatch\<close> of the round
  trip returns, element by element, the values that \<open>predictBatch\<close> of the ensemble
  returns; an element differs from its counterpart by less than \<open>1e-6\<close> exactly when it is
  a number, and an element that is \<open>NaN\<close> does not.
\<close>

theorem roundtrip_predictBatch:
  "fromJSON (toJSON (snd (fit (XGBoost ps) X y))) = snd (fit (XGBoost ps) X y)
   \<and> (\<exists>as bs.
        predictBatch (snd (fit (XGBoost ps) X y)) B = Inr as
        \<and> predictBatch (fromJSON (toJSON (snd (fit (XGBoost ps) X y)))) B = Inr bs
        \<and> bs = as \<and> length as = length B
        \<and> (\<forall>i < length B.
              js_lt (js_abs (js_sub (as ! i) (bs ! i))) (Num (1 / 10 ^ 6)) \<longleftrightarrow> is_num (as ! i)))"
proof -
  let ?m = "snd (fit (XGBoost ps) X y)"
  let ?as = "map (\<lambda>x. sigmoid (raw_score (learningRate ?m) x (trees ?m))) B"
  have "predictBatch ?m B = Inr ?as"
    by (rule predictBatch_eq)
  moreover have "predictBatch (fromJSON (toJSON ?m)) B = Inr ?as"
    unfolding roundtrip_trained by (rule predictBatch_eq)
  moreover have "length ?as = length B"
    by simp
  moreover have "\<forall>i < length B.
      js_lt (js_abs (js_sub (?as ! i) (?as ! i))) (Num (1 / 10 ^ 6)) \<longleftrightarrow> is_num (?as ! i)"
    using close_to_itself by blast
  ultimately show ?thesis
    using roundtrip_trained[of ps X y] by blast
qed

theorem roundtrip_predictBatch_witness:
  "is_num (sigmoid (Num (1 / 2 + 3 / 10 * (5000000000 / 10000000001))))
   \<and> predictBatch (snd (fit (XGBoost \<lparr>p_learningRate = Undefined, p_maxDepth = Undefined,
          p_minChildWeight = Undefined, p_numRounds = Num 1\<rparr>) [[0], [10]] [1, 3])) [[3]]
        = Inr [sigmoid (Num (1 / 2 + 3 / 10 * (5000000000 / 10000000001)))]
   \<and> predictBatch (fromJSON (toJSON (snd (fit (XGBoost \<lparr>p_learningRate = Undefined,
          p_maxDepth = Undefined, p_minChildWeight = Undefined, p_numRounds = Num 1\<rparr>)
          [[0], [10]] [1, 3])))) [[3]]
        = Inr [sigmoid (Num (1 / 2 + 3 / 10 * (5000000000 / 10000000001)))]
   \<and> js_lt (js_abs (js_sub (sigmoid (Num (1 / 2 + 3 / 10 * (5000000000 / 10000000001))))
                              (sigmoid (Num (1 / 2 + 3 / 10 * (5000000000 / 10000000001))))))
         (Num (1 / 10 ^ 6))"
proof -
  let ?m = "snd (fit (XGBoost \<lparr>p_learningRate = Undefined, p_maxDepth = Undefined,
          p_minChildWeight = Undefined, p_numRounds = Num 1\<rparr>) [[0], [10]] [1, 3])"
  let ?v = "sigmoid (Num (1 / 2 + 3 / 10 * (5000000000 / 10000000001)))"
  have p: "predictBatch ?m [[3]] = Inr [?v]"
    by (simp add: fit_one_feature predictBatch_eq raw_score_def js_elem_def)
  have n: "is_num ?v"
    using exp_gt_zero[of "- (1 / 2 + 3 / 10 * (5000000000 / 10000000001))"]
    by (simp add: sigmoid_def add_nonneg_eq_0_iff)
  from roundtrip_predictBatch[of "\<lparr>p_learningRate = Undefined, p_maxDepth = Undefined,
          p_minChildWeight = Undefined, p_numRounds = Num 1\<rparr>" "[[0], [10]]" "[1, 3]" "[[3]]"]
  obtain as where as: "predictBatch ?m [[3]] = Inr as"
    "predictBatch (fromJSON (toJSON ?m)) [[3]] = Inr as"
    "\<forall>i < length [[3 :: real]].
        js_lt (js_abs (js_sub (as ! i) (as ! i))) (Num (1 / 10 ^ 6)) \<longleftrightarrow> is_num (as ! i)"
    by auto
  from as(1) p have eq: "as = [?v]" by simp
  from as(3) n have "js_lt (js_abs (js_sub ?v ?v)) (Num (1 / 10 ^ 6))"
    unfolding eq by simp
  with n p as(2) eq show ?thesis
    by simp
qed

section \<open>C7: the split of an internal node\<close>

text \<open>
  C7: whenever a call of the tree builder returns an internal node, it recursed on a
  split whose two index lists are both non-empty and in which every sample index of the
  call, \<open>0\<close> to \<open>X.length - 1\<close>, occurs exactly once: in one of the lists, and once there.
  The children are the trees built on the rows and gradients of these two lists.
\<close>

theorem internal_node_partitions:
  assumes "buildTree m X g d = Inr (Internal f t l r)"
  shows "\<exists>s. split_decision m X g d = Inr (Some s)
           \<and> f = featureIndex s \<and> t = threshold s
           \<and> leftIndices s \<noteq> [] \<and> rightIndices s \<noteq> []
           \<and> distinct (leftIndices s @ rightIndices s)
           \<and> set (leftIndices s) \<union> set (rightIndices s) = {0..<length X}
           \<and> set (leftIndices s) \<inter> set (rightIndices s) = {}
           \<and> buildTree m (leftX X s) (leftGrad g s) (d + 1) = Inr l
           \<and> buildTree m (rightX X s) (rightGrad g s) (d + 1) = Inr r"
proof (cases "split_decision m X g d")
  case (Inl e)
  with assms show ?thesis by (simp add: buildTree_Inl)
next
  case (Inr so)
  show ?thesis
  proof (cases so)
    case None
    with Inr assms show ?thesis by (simp add: buildTree_None)
  next
    case (Some s)
    with Inr have sd: "split_decision m X g d = Inr (Some s)" by simp
    from split_decision_Some(1)[OF sd]
    have vs: "leftIndices s \<noteq> []" "rightIndices s \<noteq> []"
      "distinct (leftIndices s @ rightIndices s)"
      "set (leftIndices s) \<union> set (rightIndices s) = {0..<length X}"
      "set (leftIndices s) \<inter> set (rightIndices s) = {}"
      by (auto simp: valid_split_def)
    from assms have "f = featureIndex s \<and> t = threshold s
        \<and> buildTree m (leftX X s) (leftGrad g s) (d + 1) = Inr l
        \<and> buildTree m (rightX X s) (rightGrad g s) (d + 1) = Inr r"
      unfolding buildTree_Some[OF sd] by (auto split: sum.splits)
    with sd vs show ?thesis by blast
  qed
qed

theorem internal_node_partitions_witness:
  "buildTree (XGBoost \<lparr>p_learningRate = Undefined, p_maxDepth = Undefined, p_minChildWeight = Undefined,
       p_numRounds = Undefined\<rparr>) [[0], [10]] [Num (1 / 2), Num (5 / 2)] 0
     = Inr (Internal 0 (Num 5) (Leaf (Num (5000000000 / 10000000001)))
             (Leaf (Num (25000000000 / 10000000001))))
   \<and> (\<exists>s. split_decision (XGBoost \<lparr>p_learningRate = Undefined, p_maxDepth = Undefined,
              p_minChildWeight = Undefined, p_numRounds = Undefined\<rparr>)
              [[0], [10]] [Num (1 / 2), Num (5 / 2)] 0 = Inr (Some s)
          \<and> leftIndices s \<noteq> [] \<and> rightIndices s \<noteq> []
          \<and> distinct (leftIndices s @ rightIndices s)
          \<and> set (leftIndices s) \<union> set (rightIndices s) = {0..<length [[0], [10 :: real]]}
          \<and> set (leftIndices s) \<inter> set (rightIndices s) = {})"
proof -
  have b: "buildTree (XGBoost \<lparr>p_learningRate = Undefined, p_maxDepth = Undefined,
       p_minChildWeight = Undefined, p_numRounds = Undefined\<rparr>) [[0], [10]] [Num (1 / 2), Num (5 / 2)] 0
     = Inr (Internal 0 (Num 5) (Leaf (Num (5000000000 / 10000000001)))
             (Leaf (Num (25000000000 / 10000000001))))"
    by code_simp
  from internal_node_partitions[OF b] b show ?thesis
    by blast
qed

section \<open>C8: the depth of the trees\<close>

lemma not_stopping_depth: "\<not> stopping m g d \<Longrightarrow> real d < maxDepth m"
  by (simp add: stopping_def)

lemma buildTree_depths:
  "buildTree m X g d = Inr t \<Longrightarrow>
   \<forall>k \<in> set (node_depths d t). k = d \<or> real k < maxDepth m + 1"
proof (induction X g d arbitrary: t rule: buildTree_induct2[where m = m])
  case (step X g d)
  show ?case
  proof (cases "split_decision m X g d")
    case (Inl e)
    with step.prems show ?thesis by (simp add: buildTree_Inl)
  next
    case (Inr so)
    show ?thesis
    proof (cases so)
      case None
      with Inr step.prems show ?thesis by (auto simp: buildTree_None)
    next
      case (Some s)
      with Inr have sd: "split_decision m X g d = Inr (Some s)" by simp
      have "\<not> stopping m g d" using sd by (rule split_decision_Some)
      then have dK: "real (d + 1) < maxDepth m + 1"
        using not_stopping_depth[of m g d] by simp
      from step.prems(1) obtain l r where t: "t = Internal (featureIndex s) (threshold s) l r"
        and l: "buildTree m (leftX X s) (leftGrad g s) (d + 1) = Inr l"
        and r: "buildTree m (rightX X s) (rightGrad g s) (d + 1) = Inr r"
        unfolding buildTree_Some[OF sd] by (auto split: sum.splits)
      from step.IH(1)[OF sd l] step.IH(2)[OF sd r] dK t
      show ?thesis by auto
    qed
  qed
qed

lemma fit_loop_depths:
  "\<forall>t \<in> set (trees (snd (fit_loop k (m\<lparr>trees := ts\<rparr>) X y p))).
     t \<in> set ts \<or> (\<forall>j \<in> set (node_depths 0 t). j = 0 \<or> real j < maxDepth m + 1)"
proof (induction k arbitrary: ts p)
  case 0
  show ?case by simp
next
  case (Suc k)
  let ?m = "m\<lparr>trees := ts\<rparr>"
  show ?case
  proof (cases "buildTree ?m X (gradients_of y p) 0")
    case (Inl e)
    then show ?thesis by simp
  next
    case (Inr tree)
    from buildTree_depths[OF Inr]
    have bt: "\<forall>j \<in> set (node_depths 0 tree). j = 0 \<or> real j < maxDepth m + 1" by simp
    show ?thesis
    proof (cases "update_predictions (?m\<lparr>trees := ts @ [tree]\<rparr>) X tree p")
      case (Inl e)
      with Inr bt show ?thesis by auto
    next
      case (Inr p')
      from Suc.IH[of "ts @ [tree]" p'] bt \<open>buildTree ?m X (gradients_of y p) 0 = Inr tree\<close> Inr
      show ?thesis by auto
    qed
  qed
qed

lemma fit_depths:
  "\<forall>t \<in> set (drop (length (trees m)) (trees (snd (fit m X y)))).
     \<forall>k \<in> set (node_depths 0 t). k = 0 \<or> real k < maxDepth m + 1"
proof -
  have "\<forall>t \<in> set (trees (snd (fit (m\<lparr>trees := []\<rparr>) X y))).
      \<forall>j \<in> set (node_depths 0 t). j = 0 \<or> real j < maxDepth m + 1"
    using fit_loop_depths[where k = "rounds m" and m = m and ts = "[]" and X = X and y = y
        and p = "replicate (length y) (Num (1 / 2))"]
    by (simp add: fit_def rounds_def)
  then show ?thesis
    by (subst fit_trees) simp
qed

lemma fit_negative_maxDepth:
  "fit (XGBoost \<lparr>p_learningRate = Undefined, p_maxDepth = Num (- 1),
          p_minChildWeight = Undefined, p_numRounds = Num 1\<rparr>) [[0], [10]] [1, 3]
     = (None, \<lparr>learningRate = 3 / 10, maxDepth = - 1, minChildWeight = 1, numRounds = 1,
               trees = [Leaf (Num (10000000000 / 6666666667))]\<rparr>)"
  by code_simp

lemma fit_fractional_maxDepth:
  "fit (XGBoost \<lparr>p_learningRate = Undefined, p_maxDepth = Num (5 / 2),
          p_minChildWeight = Undefined, p_numRounds = Num 1\<rparr>) [[0], [1], [2], [3]] [1, 2, 4, 10]
     = (None, \<lparr>learningRate = 3 / 10, maxDepth = 5 / 2, minChildWeight = 1, numRounds = 1,
               trees =
                 [Internal 0 (Num (5 / 2))
                    (Internal 0 (Num (3 / 2))
                       (Internal 0 (Num (1 / 2)) (Leaf (Num (5000000000 / 10000000001)))
                          (Leaf (Num (15000000000 / 10000000001))))
                       (Leaf (Num (35000000000 / 10000000001))))
                    (Leaf (Num (95000000000 / 10000000001)))]\<rparr>)"
  by code_simp

text \<open>
  C8, as the claim states it, fails for a stored \<open>maxDepth\<close> that is negative or not an
  integer, both of which the constructor stores: with \<open>maxDepth = -1\<close> the tree is a root
  at depth 0, above \<open>-1\<close>; with \<open>maxDepth = 2.5\<close> a tree on four rows has leaves at depth
  3, above \<open>2.5\<close>.
\<close>

theorem depth_exceeds_maxDepth:
  "fst (fit (XGBoost \<lparr>p_learningRate = Undefined, p_maxDepth = Num (- 1),
          p_minChildWeight = Undefined, p_numRounds = Num 1\<rparr>) [[0], [10]] [1, 3]) = None
   \<and> maxDepth (snd (fit (XGBoost \<lparr>p_learningRate = Undefined, p_maxDepth = Num (- 1),
          p_minChildWeight = Undefined, p_numRounds = Num 1\<rparr>) [[0], [10]] [1, 3])) = - 1
   \<and> map (node_depths 0) (trees (snd (fit (XGBoost \<lparr>p_learningRate = Undefined,
          p_maxDepth = Num (- 1), p_minChildWeight = Undefined, p_numRounds = Num 1\<rparr>)
          [[0], [10]] [1, 3]))) = [[0]]
   \<and> real 0 > - 1
   \<and> fst (fit (XGBoost \<lparr>p_learningRate = Undefined, p_maxDepth = Num (5 / 2),
          p_minChildWeight = Undefined, p_numRounds = Num 1\<rparr>)
          [[0], [1], [2], [3]] [1, 2, 4, 10]) = None
   \<and> maxDepth (snd (fit (XGBoost \<lparr>p_learningRate = Undefined, p_maxDepth = Num (5 / 2),
          p_minChildWeight = Undefined, p_numRounds = Num 1\<rparr>)
          [[0], [1], [2], [3]] [1, 2, 4, 10])) = 5 / 2
   \<and> map (node_depths 0) (trees (snd (fit (XGBoost \<lparr>p_learningRate = Undefined,
          p_maxDepth = Num (5 / 2), p_minChildWeight = Undefined, p_numRounds = Num 1\<rparr>)
          [[0], [1], [2], [3]] [1, 2, 4, 10]))) = [[0, 1, 2, 3, 3, 2, 1]]
   \<and> real 3 > 5 / 2"
  by (simp add: fit_negative_maxDepth fit_fractional_maxDepth)

text \<open>
  C8, amended: in every tree that \<open>fit\<close> has built, a node is the root, at depth 0, or
  lies at a depth below \<open>maxDepth + 1\<close>; so no node lies deeper than \<open>maxDepth\<close> whenever
  the stored \<open>maxDepth\<close> is a natural number.
\<close>

theorem fit_depth_bound:
  "\<forall>t \<in> set (drop (length (trees m)) (trees (snd (fit m X y)))).
     \<forall>k \<in> set (node_depths 0 t).
       (k = 0 \<or> real k < maxDepth m + 1) \<and> (maxDepth m = real K \<longrightarrow> k \<le> K)"
  using fit_depths[of m X y] by fastforce

theorem fit_depth_bound_witness:
  "drop (length (trees (XGBoost \<lparr>p_learningRate = Undefined, p_maxDepth = Num (5 / 2),
          p_minChildWeight = Undefined, p_numRounds = Num 1\<rparr>)))
     (trees (snd (fit (XGBoost \<lparr>p_learningRate = Undefined, p_maxDepth = Num (5 / 2),
          p_minChildWeight = Undefined, p_numRounds = Num 1\<rparr>)
          [[0], [1], [2], [3]] [1, 2, 4, 10])))
     = [Internal 0 (Num (5 / 2))
          (Internal 0 (Num (3 / 2))
             (Internal 0 (Num (1 / 2)) (Leaf (Num (5000000000 / 10000000001)))
                (Leaf (Num (15000000000 / 10000000001))))
             (Leaf (Num (35000000000 / 10000000001))))
          (Leaf (Num (95000000000 / 10000000001)))]
   \<and> list_all (\<lambda>k. k = 0 \<or> real k < 5 / 2 + 1)
        (node_depths 0
          (Internal 0 (Num (5 / 2))
             (Internal 0 (Num (3 / 2))
                (Internal 0 (Num (1 / 2)) (Leaf (Num (5000000000 / 10000000001)))
                   (Leaf (Num (15000000000 / 10000000001))))
                (Leaf (Num (35000000000 / 10000000001))))
             (Leaf (Num (95000000000 / 10000000001)))))
   \<and> maxDepth (XGBoost \<lparr>p_learningRate = Undefined, p_maxDepth = Num 1,
          p_minChildWeight = Undefined, p_numRounds = Num 1\<rparr>) = real 1
   \<and> drop (length (trees (XGBoost \<lparr>p_learningRate = Undefined, p_maxDepth = Num 1,
              p_minChildWeight = Undefined, p_numRounds = Num 1\<rparr>)))
         (trees (snd (fit (XGBoost \<lparr>p_learningRate = Undefined, p_maxDepth = Num 1,
              p_minChildWeight = Undefined, p_numRounds = Num 1\<rparr>) [[0], [10], [20]] [1, 3, 8])))
      = [Internal 0 (Num 15) (Leaf (Num (10000000000 / 6666666667)))
           (Leaf (Num (75000000000 / 10000000001)))]
   \<and> list_all (\<lambda>k. k \<le> 1)
         (node_depths 0 (Internal 0 (Num 15) (Leaf (Num (10000000000 / 6666666667)))
           (Leaf (Num (75000000000 / 10000000001)))))"
proof -
  let ?f = "XGBoost \<lparr>p_learningRate = Undefined, p_maxDepth = Num (5 / 2),
          p_minChildWeight = Undefined, p_numRounds = Num 1\<rparr>"
  let ?tf = "Internal 0 (Num (5 / 2))
          (Internal 0 (Num (3 / 2))
             (Internal 0 (Num (1 / 2)) (Leaf (Num (5000000000 / 10000000001)))
                (Leaf (Num (15000000000 / 10000000001))))
             (Leaf (Num (35000000000 / 10000000001))))
          (Leaf (Num (95000000000 / 10000000001)))"
  let ?m = "XGBoost \<lparr>p_learningRate = Undefined, p_maxDepth = Num 1, p_minChildWeight = Undefined,
       p_numRounds = Num 1\<rparr>"
  let ?t = "Internal 0 (Num 15) (Leaf (Num (10000000000 / 6666666667)))
           (Leaf (Num (75000000000 / 10000000001)))"
  have mf: "maxDepth ?f = 5 / 2" and e: "trees ?f = []" "trees ?m = []"
    by (simp_all add: XGBoost_def)
  have df: "drop (length (trees ?f)) (trees (snd (fit ?f [[0], [1], [2], [3]] [1, 2, 4, 10]))) = [?tf]"
    unfolding e by (simp add: fit_fractional_maxDepth)
  from fit_depth_bound[of ?f "[[0], [1], [2], [3]]" "[1, 2, 4, 10]" 0]
  have "\<forall>k \<in> set (node_depths 0 ?tf). k = 0 \<or> real k < 5 / 2 + 1"
    unfolding df mf by simp
  then have lf: "list_all (\<lambda>k. k = 0 \<or> real k < 5 / 2 + 1) (node_depths 0 ?tf)"
    by (simp only: list_all_iff)
  have a: "maxDepth ?m = real 1"
    by (simp add: XGBoost_def)
  have b: "fit ?m [[0], [10], [20]] [1, 3, 8] =
      (None, \<lparr>learningRate = 3 / 10, maxDepth = 1, minChildWeight = 1, numRounds = 1,
        trees = [?t]\<rparr>)"
    by code_simp
  have d: "drop (length (trees ?m)) (trees (snd (fit ?m [[0], [10], [20]] [1, 3, 8]))) = [?t]"
    unfolding e by (simp add: b)
  from fit_depth_bound[of ?m "[[0], [10], [20]]" "[1, 3, 8]" 1] a
  have "\<forall>k \<in> set (node_depths 0 ?t). k \<le> 1"
    unfolding d by simp
  then have l: "list_all (\<lambda>k. k \<le> 1) (node_depths 0 ?t)"
    by (simp only: list_all_iff)
  from df lf a d l show ?thesis
    by blast
qed

section \<open>C9: when the tree builder returns a leaf\<close>












section \<open>C10: a second call of \<open>fit\<close>\<close>








end
